theory Spec2Isabelle
  imports Complex_Main "HOL-Library.Char_ord" "HOL-Library.List_Lexorder"
begin

section \<open>The steel plants dashboard (dashboard.py)\<close>

text \<open>
  The script reads a table of steel plants, derives three numeric columns, drops the rows
  that cannot be placed on a map, filters the rest by the sidebar selections and renders
  four indicators, a map and a table.

  Conventions of the embedding:
  \<^item> a data frame is the list of its rows, in order, duplicates kept;
  \<^item> a cell of a text column is a \<open>string option\<close>: \<open>None\<close> is the missing value (NaN)
    that the CSV reader puts in an empty cell;
  \<^item> a cell of a numeric column is a \<open>real option\<close>: \<open>None\<close> is NaN. Floating-point
    numbers are idealised as reals, so rounding error and the infinities are not
    represented;
  \<^item> the numeric parser of the data frame library (\<open>pd.to_numeric\<close>) is a parameter
    \<open>num :: string \<Rightarrow> real option\<close> of the loader, \<open>None\<close> where the text is not a number;
  \<^item> rounding to two decimals works on the binary double that the program holds, which
    the reals do not represent; it is a parameter \<open>rnd :: real \<Rightarrow> real\<close> of the indicators;
  \<^item> the sidebar widgets are parameters as well: they stand for what the user selects;
  \<^item> an exception is a value of type \<open>error\<close>.
\<close>

subsection \<open>Data model\<close>

type_synonym cell = "string option"

datatype error =
  FileNotFoundError | ValueError | AttributeError | KeyError | TypeError | StreamlitAPIException

text \<open>The columns of the CSV file that the script reads, one record per line of the file.\<close>

record raw_row =
  plant_name :: cell
  owner :: cell
  country :: cell
  region :: cell
  status :: cell
  capacity_ttpa :: cell
  start_date :: cell
  equipment :: cell
  coordinates :: cell

text \<open>
  The row after \<open>load_and_clean_data\<close>: the derived columns \<open>Capacity_Mtpa\<close>, \<open>lat\<close> and
  \<open>Longitude\<close> are added to the original ones.
\<close>

record row = raw_row +
  capacity_mtpa :: "real option"
  lat :: "real option"
  longitude :: "real option"

subsection \<open>Library operations used by the loader\<close>

text \<open>
  \<open>pd.to_numeric(column, errors='coerce')\<close>, cell by cell: a missing cell stays missing, a
  text cell is parsed, and text that is not a number becomes NaN instead of an error.
\<close>

definition to_numeric :: "(string \<Rightarrow> real option) \<Rightarrow> cell \<Rightarrow> real option" where
  "to_numeric num c = (case c of None \<Rightarrow> None | Some s \<Rightarrow> num s)"

text \<open>\<open>isnull\<close> tells a missing cell from a present one.\<close>

definition isnull :: "'a option \<Rightarrow> bool" where
  "isnull c = (case c of None \<Rightarrow> True | Some _ \<Rightarrow> False)"

text \<open>
  \<open>s.split(', ')\<close>: the parts of \<open>s\<close> between the occurrences of the two-character
  separator, found from the left and not overlapping. The result is never empty: a string
  without the separator is its own single part.
\<close>

fun split_comma_space :: "string \<Rightarrow> string list" where
  "split_comma_space [] = [[]]"
| "split_comma_space (c # cs) =
     (if c = CHR '','' \<and> cs \<noteq> [] \<and> hd cs = CHR '' '' then [] # split_comma_space (tl cs)
      else (case split_comma_space cs of
              [] \<Rightarrow> [[c]]
            | p # ps \<Rightarrow> (c # p) # ps))"

text \<open>
  \<open>column.str\<close>: the string accessor exists on a column of text only. The CSV reader gives a
  column in which every cell is empty the floating-point type, and the accessor raises
  \<open>AttributeError\<close> there; a frame without rows keeps the object type. The coordinate
  column is taken to hold text wherever it holds anything: a column of bare numbers, which
  the reader would type as numeric, is outside the model.
\<close>

definition str_accessor :: "cell list \<Rightarrow> error + cell list" where
  "str_accessor col =
     (if col \<noteq> [] \<and> list_all (\<lambda>c. c = None) col then Inl AttributeError else Inr col)"

text \<open>
  \<open>.str.split(', ', expand=True)\<close>: a frame with as many columns as the longest list of
  parts, where a missing cell counts as the one-element list of itself; a row with
  fewer parts is padded with missing values, and a missing cell gives a row of missing
  values. A column without cells gives a frame without columns.
\<close>

definition expand_width :: "cell list \<Rightarrow> nat" where
  "expand_width col =
     fold max (map (\<lambda>c. case c of None \<Rightarrow> 1 | Some s \<Rightarrow> length (split_comma_space s)) col) 0"

definition expand_row :: "nat \<Rightarrow> cell \<Rightarrow> cell list" where
  "expand_row w c =
     (case c of
        None \<Rightarrow> replicate w None
      | Some s \<Rightarrow> (let ps = split_comma_space s in map Some ps @ replicate (w - length ps) None))"

definition str_split_expand :: "cell list \<Rightarrow> error + (nat \<times> cell list list)" where
  "str_split_expand col =
     (case str_accessor col of
        Inl e \<Rightarrow> Inl e
      | Inr col' \<Rightarrow> (let w = expand_width col' in Inr (w, map (expand_row w) col')))"

subsection \<open>Loading and cleaning\<close>

text \<open>
  The file system is a map from paths to the tables that the CSV reader returns for them;
  \<open>pd.read_csv\<close> raises \<open>FileNotFoundError\<close> on a path outside its domain.
\<close>

definition read_csv :: "(string \<rightharpoonup> raw_row list) \<Rightarrow> string \<Rightarrow> error + raw_row list" where
  "read_csv fs file_path = (case fs file_path of None \<Rightarrow> Inl FileNotFoundError | Some t \<Rightarrow> Inr t)"

text \<open>
  Line 38, \<open>df[[lat, Longitude]] = ...split...\<close>: assigning a frame to a list of two column
  names raises \<open>ValueError\<close> (columns must be same length as key) unless the frame has
  exactly two columns.
\<close>

definition assign_lat_lon :: "nat \<times> cell list list \<Rightarrow> error + (cell \<times> cell) list" where
  "assign_lat_lon ex =
     (case ex of (w, parts) \<Rightarrow>
        if w \<noteq> 2 then Inl ValueError
        else Inr (map (\<lambda>ps. (ps ! 0, ps ! 1)) parts))"

definition clean_row :: "(string \<Rightarrow> real option) \<Rightarrow> raw_row \<Rightarrow> cell \<times> cell \<Rightarrow> row" where
  "clean_row num t ll =
     raw_row.extend t
       (row.fields
          (map_option (\<lambda>x. x / 1000) (to_numeric num (capacity_ttpa t)))
          (to_numeric num (fst ll))
          (to_numeric num (snd ll)))"

text \<open>\<open>dropna(subset=[lat, Longitude])\<close>: keep the rows in which both cells are present.\<close>

definition dropna_lat_lon :: "row list \<Rightarrow> row list" where
  "dropna_lat_lon df = filter (\<lambda>r. \<not> isnull (lat r) \<and> \<not> isnull (longitude r)) df"

definition load_and_clean_data ::
  "(string \<Rightarrow> real option) \<Rightarrow> (string \<rightharpoonup> raw_row list) \<Rightarrow> string \<Rightarrow> error + row list" where
  "load_and_clean_data num fs file_path =
     (case read_csv fs file_path of
        Inl e \<Rightarrow> Inl e
      | Inr df \<Rightarrow>
          (case str_split_expand (map coordinates df) of
             Inl e \<Rightarrow> Inl e
           | Inr ex \<Rightarrow>
               (case assign_lat_lon ex of
                  Inl e \<Rightarrow> Inl e
                | Inr lls \<Rightarrow> Inr (dropna_lat_lon (map2 (clean_row num) df lls)))))"

subsection \<open>Filters (lines 99 to 111)\<close>

text \<open>
  \<open>column.isin(values)\<close> is membership; the library lets a missing cell match a missing
  value of the list, as equality on \<open>option\<close> does. An empty selection list is falsy in
  Python, so the owner and country filters are skipped for it.
\<close>

definition filter_owner :: "cell list \<Rightarrow> row list \<Rightarrow> row list" where
  "filter_owner selected_companies df_filtered =
     (if selected_companies \<noteq> [] then filter (\<lambda>r. owner r \<in> set selected_companies) df_filtered
      else df_filtered)"

definition filter_country :: "cell list \<Rightarrow> row list \<Rightarrow> row list" where
  "filter_country selected_countries df_filtered =
     (if selected_countries \<noteq> [] then filter (\<lambda>r. country r \<in> set selected_countries) df_filtered
      else df_filtered)"

text \<open>Comparisons of a numeric column with a number: a comparison with NaN is false.\<close>

definition ge_num :: "real option \<Rightarrow> real \<Rightarrow> bool" where
  "ge_num c v = (case c of None \<Rightarrow> False | Some x \<Rightarrow> v \<le> x)"

definition le_num :: "real option \<Rightarrow> real \<Rightarrow> bool" where
  "le_num c v = (case c of None \<Rightarrow> False | Some x \<Rightarrow> x \<le> v)"

definition filter_capacity :: "real \<times> real \<Rightarrow> row list \<Rightarrow> row list" where
  "filter_capacity capacity_range df_filtered =
     filter (\<lambda>r. isnull (capacity_mtpa r) \<or>
                  (ge_num (capacity_mtpa r) (fst capacity_range) \<and>
                   le_num (capacity_mtpa r) (snd capacity_range)))
       df_filtered"

definition apply_filters :: "row list \<Rightarrow> cell list \<Rightarrow> cell list \<Rightarrow> real \<times> real \<Rightarrow> row list" where
  "apply_filters df selected_companies selected_countries capacity_range =
     filter_capacity capacity_range
       (filter_country selected_countries (filter_owner selected_companies df))"

subsection \<open>Indicators (lines 125 to 128)\<close>

fun dropna :: "'a option list \<Rightarrow> 'a list" where
  "dropna [] = []"
| "dropna (None # xs) = dropna xs"
| "dropna (Some x # xs) = x # dropna xs"

text \<open>\<open>column.sum()\<close> skips NaN and is 0 on a column without numbers.\<close>

definition series_sum :: "real option list \<Rightarrow> real" where
  "series_sum col = sum_list (dropna col)"

text \<open>\<open>column.mean()\<close> skips NaN and is NaN on a column without numbers.\<close>

definition series_mean :: "real option list \<Rightarrow> real option" where
  "series_mean col =
     (let xs = dropna col in if xs = [] then None else Some (sum_list xs / real (length xs)))"

text \<open>\<open>column.nunique()\<close>: the number of distinct values, missing cells not counted.\<close>

definition nunique :: "'a option list \<Rightarrow> nat" where
  "nunique col = length (remdups (dropna col))"

text \<open>
  \<open>x.round(2)\<close> is a method of a NumPy number. \<open>column.sum()\<close> always returns one, and so
  does \<open>column.mean()\<close> on a column that has a number; on a column without numbers
  \<open>column.mean()\<close> returns the plain Python float \<open>nan\<close>, which has no such method, and the
  call on line 127 raises \<open>AttributeError\<close>.
\<close>

definition round_of_mean :: "(real \<Rightarrow> real) \<Rightarrow> real option \<Rightarrow> error + real" where
  "round_of_mean rnd m = (case m of None \<Rightarrow> Inl AttributeError | Some x \<Rightarrow> Inr (rnd x))"

record kpis =
  total_plants :: nat
  total_capacity :: real
  avg_capacity :: real
  unique_countries :: nat

definition compute_kpis :: "(real \<Rightarrow> real) \<Rightarrow> row list \<Rightarrow> error + kpis" where
  "compute_kpis rnd df_filtered =
     (let n = length df_filtered;
          total = rnd (series_sum (map capacity_mtpa df_filtered))
      in case (if 0 < n then round_of_mean rnd (series_mean (map capacity_mtpa df_filtered))
               else Inr 0) of
           Inl e \<Rightarrow> Inl e
         | Inr avg \<Rightarrow>
             Inr \<lparr>total_plants = n, total_capacity = total, avg_capacity = avg,
                  unique_countries = nunique (map country df_filtered)\<rparr>)"

subsection \<open>Map markers (lines 148 to 171)\<close>

text \<open>A row of \<open>map_data\<close>: the cleaned row with the two styling columns.\<close>

record point = row +
  radius :: "real option"
  color :: "nat list"

definition map_data_dropna :: "row list \<Rightarrow> row list" where
  "map_data_dropna df_filtered =
     filter (\<lambda>r. \<not> isnull (lat r) \<and> \<not> isnull (longitude r) \<and> \<not> isnull (capacity_mtpa r)) df_filtered"

text \<open>
  \<open>clip(lower, upper)\<close>: a value under the lower bound is replaced by it, a value over the
  upper bound by that one; both tests read the original value.
\<close>

definition clip :: "real \<Rightarrow> real \<Rightarrow> real \<Rightarrow> real" where
  "clip lower upper x =
     (let result = (if lower \<le> x then x else lower) in if x \<le> upper then result else upper)"

definition marker_radius :: "real option \<Rightarrow> real option" where
  "marker_radius c = map_option (clip 5000 80000) (map_option (\<lambda>x. x * 20000) c)"

definition region_colors :: "(string \<times> nat list) list" where
  "region_colors =
     [(''Asia Pacific'', [250, 0, 0, 160]),
      (''Europe'', [0, 128, 255, 160]),
      (''Africa'', [0, 200, 0, 160]),
      (''North America'', [255, 165, 0, 160]),
      (''Middle East'', [255, 220, 0, 160]),
      (''Central & South America '', [160, 32, 240, 160]),
      (''Eurasia'', [255, 105, 180, 160])]"

text \<open>
  \<open>column.map(region_colors)\<close> gives NaN for a missing cell and for a key that the
  dictionary does not have; the function applied afterwards keeps a list and replaces
  anything else by gray.
\<close>

definition series_map :: "(string \<times> 'v) list \<Rightarrow> cell \<Rightarrow> 'v option" where
  "series_map d c = (case c of None \<Rightarrow> None | Some s \<Rightarrow> map_of d s)"

definition list_or_gray :: "nat list option \<Rightarrow> nat list" where
  "list_or_gray x = (case x of Some l \<Rightarrow> l | None \<Rightarrow> [128, 128, 128, 160])"

definition marker_color :: "cell \<Rightarrow> nat list" where
  "marker_color reg = list_or_gray (series_map region_colors reg)"

definition style_point :: "row \<Rightarrow> point" where
  "style_point r =
     row.extend r (point.fields (marker_radius (capacity_mtpa r)) (marker_color (region r)))"

text \<open>
  The initial view of the map: the mean of a coordinate column when it has a number,
  0 otherwise.
\<close>

definition mean_or_zero :: "real option list \<Rightarrow> real" where
  "mean_or_zero col = (case series_mean col of None \<Rightarrow> 0 | Some m \<Rightarrow> m)"

subsection \<open>The rendered page (lines 99 to 238)\<close>

text \<open>
  The page is the list of the elements that the script emits, with how the run ended.
  Titles, rules and captions are constant text and are left out. \<open>st.stop()\<close> ends the run
  without an exception.
\<close>

datatype ui =
    Error string
  | Warning string
  | Metrics kpis
  | Pydeck_chart "point list" "real \<times> real"
  | Dataframe "(raw_row \<times> real option) list"

datatype outcome = Finished | Stopped | Raised error

text \<open>
  \<open>has_region\<close> says whether the frame has a column named \<open>Region\<close>. Without it,
  \<open>map_data.get("Region", "Unknown")\<close> is the string \<open>"Unknown"\<close>, which has no method
  \<open>map\<close> (\<open>AttributeError\<close>), and selecting the table columns raises \<open>KeyError\<close>.
\<close>

definition map_section :: "bool \<Rightarrow> row list \<Rightarrow> error + ui" where
  "map_section has_region df_filtered =
     (let map_data = map_data_dropna df_filtered in
      if map_data \<noteq> [] then
        (if has_region
         then Inr (Pydeck_chart (map style_point map_data)
                     (mean_or_zero (map lat map_data), mean_or_zero (map longitude map_data)))
         else Inl AttributeError)
      else Inr (Warning ''No plants with valid capacity and coordinates to display on the map.''))"

definition table_section :: "bool \<Rightarrow> row list \<Rightarrow> error + ui" where
  "table_section has_region df_filtered =
     (if has_region
      then Inr (Dataframe (map (\<lambda>r. (raw_row.truncate r, capacity_mtpa r)) df_filtered))
      else Inl KeyError)"

definition main_content :: "(real \<Rightarrow> real) \<Rightarrow> bool \<Rightarrow> row list \<Rightarrow> ui list \<times> outcome" where
  "main_content rnd has_region df_filtered =
     (case compute_kpis rnd df_filtered of
        Inl e \<Rightarrow> ([], Raised e)
      | Inr k \<Rightarrow>
          (case map_section has_region df_filtered of
             Inl e \<Rightarrow> ([Metrics k], Raised e)
           | Inr chart \<Rightarrow>
               (case table_section has_region df_filtered of
                  Inl e \<Rightarrow> ([Metrics k, chart], Raised e)
                | Inr table \<Rightarrow> ([Metrics k, chart, table], Finished))))"

definition dashboard ::
  "(real \<Rightarrow> real) \<Rightarrow> bool \<Rightarrow> row list \<Rightarrow> cell list \<Rightarrow> cell list \<Rightarrow> real \<times> real \<Rightarrow>
   ui list \<times> outcome" where
  "dashboard rnd has_region df selected_companies selected_countries capacity_range =
     (let df_filtered = apply_filters df selected_companies selected_countries capacity_range in
      if df_filtered = []
      then ([Error ''No steel plants match the selected filters. Please adjust your selections.''],
            Stopped)
      else main_content rnd has_region df_filtered)"

subsection \<open>The sidebar (lines 66 to 96)\<close>

text \<open>
  \<open>sorted(column.unique())\<close>: the distinct cells in ascending order. Python orders text by
  code points, and cannot order a missing cell, which is a float, against text: with
  both in the column the comparison raises \<open>TypeError\<close>.
\<close>

definition sorted_unique :: "cell list \<Rightarrow> error + cell list" where
  "sorted_unique col =
     (let u = remdups col in
      if list_all isnull u then Inr u
      else if list_ex isnull u then Inl TypeError
      else Inr (map Some (sort (dropna u))))"

text \<open>
  The widgets. A multiselect takes the options and the default selection and returns
  what the user has selected; the slider takes the two bounds, with the whole range as
  default, and returns the selected range, or raises the exception of the widget
  library where it refuses its arguments.
\<close>

record widgets =
  select_companies :: "cell list \<Rightarrow> cell list \<Rightarrow> cell list"
  select_countries :: "cell list \<Rightarrow> cell list \<Rightarrow> cell list"
  slider :: "real \<Rightarrow> real \<Rightarrow> error + real \<times> real"

definition capacity_slider ::
  "(real \<Rightarrow> real) \<Rightarrow> widgets \<Rightarrow> row list \<Rightarrow> ui list \<times> (error + real \<times> real)" where
  "capacity_slider rnd w df =
     (let capacity_values = dropna (map capacity_mtpa df) in
      if capacity_values \<noteq> [] then
        ([], slider w (rnd (Min (set capacity_values))) (rnd (Max (set capacity_values))))
      else ([Warning ''No valid capacity data available.''], Inr (0, 0)))"

definition sidebar ::
  "(real \<Rightarrow> real) \<Rightarrow> widgets \<Rightarrow> row list \<Rightarrow>
   ui list \<times> (error + cell list \<times> cell list \<times> real \<times> real)" where
  "sidebar rnd w df =
     (case sorted_unique (map owner df) of
        Inl e \<Rightarrow> ([], Inl e)
      | Inr all_companies \<Rightarrow>
          (case sorted_unique (map country df) of
             Inl e \<Rightarrow> ([], Inl e)
           | Inr all_countries \<Rightarrow>
               (case capacity_slider rnd w df of
                  (side, Inl e) \<Rightarrow> (side, Inl e)
                | (side, Inr capacity_range) \<Rightarrow>
                    (side,
                     Inr (select_companies w all_companies (take 10 all_companies),
                          select_countries w all_countries all_countries,
                          capacity_range)))))"

subsection \<open>The whole script\<close>

text \<open>
  Lines 49 to 53: only \<open>FileNotFoundError\<close> is caught and turned into a message followed by
  \<open>st.stop()\<close>; any other exception of the loader leaves the script, and so does an
  exception of the sidebar.
\<close>

definition DATA_FILE :: string where
  "DATA_FILE = ''steel_plants.csv''"

definition app ::
  "(string \<Rightarrow> real option) \<Rightarrow> (real \<Rightarrow> real) \<Rightarrow> widgets \<Rightarrow> (string \<rightharpoonup> raw_row list) \<Rightarrow> bool \<Rightarrow>
   ui list \<times> outcome" where
  "app num rnd w fs has_region =
     (case load_and_clean_data num fs DATA_FILE of
        Inl FileNotFoundError \<Rightarrow>
          ([Error ''Error: The data file 'steel_plants.csv' was not found. Please ensure it is uploaded.''],
           Stopped)
      | Inl e \<Rightarrow> ([], Raised e)
      | Inr df \<Rightarrow>
          (case sidebar rnd w df of
             (side, Inl e) \<Rightarrow> (side, Raised e)
           | (side, Inr (selected_companies, selected_countries, capacity_range)) \<Rightarrow>
               (case dashboard rnd has_region df selected_companies selected_countries capacity_range of
                  (page, out) \<Rightarrow> (side @ page, out))))"

subsection \<open>What the properties below speak about\<close>

text \<open>
  A row of the file is plottable when its coordinate cell is text that splits into exactly
  two parts and both parts are numbers.
\<close>

definition plottable :: "(string \<Rightarrow> real option) \<Rightarrow> raw_row \<Rightarrow> bool" where
  "plottable num t =
     (case coordinates t of
        None \<Rightarrow> False
      | Some s \<Rightarrow>
          (case split_comma_space s of
             [a, b] \<Rightarrow> \<not> isnull (num a) \<and> \<not> isnull (num b)
           | _ \<Rightarrow> False))"

text \<open>
  The two cells that line 38 stores for a coordinate cell when the split frame has two
  columns.
\<close>

definition lat_lon_cells :: "cell \<Rightarrow> cell \<times> cell" where
  "lat_lon_cells c = (expand_row 2 c ! 0, expand_row 2 c ! 1)"

subsection \<open>A numeric parser and a small file for the examples\<close>

text \<open>
  Plain decimal literals: an optional minus sign, digits, and optionally a point followed
  by digits. The parser of the library accepts more (exponents, surrounding blanks); on
  these literals it gives the same number up to floating-point rounding.
\<close>

definition is_digit :: "char \<Rightarrow> bool" where
  "is_digit c = (48 \<le> (of_char c :: nat) \<and> (of_char c :: nat) \<le> 57)"

definition digits :: "string \<Rightarrow> nat option" where
  "digits s =
     (if s \<noteq> [] \<and> list_all is_digit s
      then Some (foldl (\<lambda>n c. 10 * n + (of_char c - 48)) 0 s) else None)"

definition unsigned_decimal :: "string \<Rightarrow> real option" where
  "unsigned_decimal s =
     (let ip = takeWhile (\<lambda>c. c \<noteq> CHR ''.'') s;
          rest = dropWhile (\<lambda>c. c \<noteq> CHR ''.'') s
      in case digits ip of
           None \<Rightarrow> None
         | Some i \<Rightarrow>
             (if rest = [] then Some (real i)
              else (case digits (tl rest) of
                      None \<Rightarrow> None
                    | Some f \<Rightarrow> Some (real i + real f / 10 ^ length (tl rest)))))"

definition decimal :: "string \<Rightarrow> real option" where
  "decimal s =
     (if s \<noteq> [] \<and> hd s = CHR ''-'' then map_option uminus (unsigned_decimal (tl s))
      else unsigned_decimal s)"

definition plant_annaba :: raw_row where
  "plant_annaba =
     \<lparr>plant_name = Some ''El Hadjar steel plant'', owner = Some ''Groupe Sider'',
      country = Some ''Algeria'', region = Some ''Africa'', status = Some ''operating'',
      capacity_ttpa = Some ''1500'', start_date = Some ''1969'', equipment = Some ''BF; BOF'',
      coordinates = Some ''36.7539610, 6.2444200''\<rparr>"

definition plant_bad_coordinates :: raw_row where
  "plant_bad_coordinates =
     \<lparr>plant_name = Some ''Plant B'', owner = Some ''Owner B'',
      country = Some ''Brazil'', region = Some ''Central & South America'', status = Some ''operating'',
      capacity_ttpa = Some ''2000'', start_date = None, equipment = None,
      coordinates = Some ''bad''\<rparr>"

definition plant_three_parts :: raw_row where
  "plant_three_parts =
     \<lparr>plant_name = Some ''Plant C'', owner = Some ''Owner C'',
      country = Some ''China'', region = Some ''Asia Pacific'', status = Some ''operating'',
      capacity_ttpa = Some ''3000'', start_date = None, equipment = None,
      coordinates = Some ''1.0, 2.0, 3.0''\<rparr>"

definition plant_unknown_capacity :: raw_row where
  "plant_unknown_capacity =
     \<lparr>plant_name = Some ''Plant D'', owner = Some ''Owner D'',
      country = Some ''Germany'', region = Some ''Europe'', status = Some ''operating'',
      capacity_ttpa = Some ''unknown'', start_date = None, equipment = None,
      coordinates = Some ''51.5, 7.25''\<rparr>"

text \<open>The cleaned rows of \<open>plant_annaba\<close> and of \<open>plant_unknown_capacity\<close>.\<close>

definition annaba :: row where
  "annaba =
     raw_row.extend plant_annaba
       (row.fields (Some (3 / 2)) (Some (3675396100 / 10 ^ 8)) (Some (62444200 / 10 ^ 7)))"

definition unknown_capacity :: row where
  "unknown_capacity =
     raw_row.extend plant_unknown_capacity (row.fields None (Some (103 / 2)) (Some (29 / 4)))"

definition example_file :: "raw_row list" where
  "example_file = [plant_annaba, plant_bad_coordinates, plant_unknown_capacity]"

definition example_fs :: "string \<rightharpoonup> raw_row list" where
  "example_fs = [DATA_FILE \<mapsto> example_file]"

text \<open>A file in which one coordinate cell has three parts.\<close>

definition three_parts_fs :: "string \<rightharpoonup> raw_row list" where
  "three_parts_fs = [DATA_FILE \<mapsto> [plant_annaba, plant_three_parts]]"

text \<open>
  Four cleaned rows with the derived capacities 1, 2, missing and 3, and a filtered
  subset whose regions are in the palette, missing, and outside the palette.
\<close>

definition four_plants :: "row list" where
  "four_plants =
     [annaba\<lparr>capacity_mtpa := Some 1\<rparr>,
      unknown_capacity\<lparr>capacity_mtpa := Some 2\<rparr>,
      unknown_capacity,
      annaba\<lparr>capacity_mtpa := Some 3\<rparr>]"

definition map_example :: "row list" where
  "map_example =
     [annaba,
      annaba\<lparr>region := None\<rparr>,
      annaba\<lparr>region := Some ''Antarctica''\<rparr>,
      unknown_capacity]"

section \<open>Properties of the loader\<close>

lemmas example_defs =
  load_and_clean_data_def read_csv_def str_split_expand_def str_accessor_def expand_width_def
  expand_row_def assign_lat_lon_def clean_row_def dropna_lat_lon_def to_numeric_def
  decimal_def unsigned_decimal_def digits_def is_digit_def DATA_FILE_def isnull_def
  plant_annaba_def plant_bad_coordinates_def plant_unknown_capacity_def
  annaba_def unknown_capacity_def example_file_def example_fs_def
  raw_row.defs row.defs

lemma isnull_iff: "isnull c \<longleftrightarrow> c = None"
  by (cases c) (simp_all add: isnull_def)

lemma split_comma_space_not_Nil: "split_comma_space s \<noteq> []"
  by (induction s rule: split_comma_space.induct) (auto split: list.splits)

lemma map2_same: "map2 f xs (map g xs) = map (\<lambda>x. f x (g x)) xs"
  by (induction xs) auto

lemma truncate_clean_row: "raw_row.truncate (clean_row num t ll) = t"
  by (simp add: clean_row_def raw_row.defs row.defs)

lemma clean_row_fields:
  "capacity_mtpa (clean_row num t ll) = map_option (\<lambda>x. x / 1000) (to_numeric num (capacity_ttpa t))"
  "lat (clean_row num t ll) = to_numeric num (fst ll)"
  "longitude (clean_row num t ll) = to_numeric num (snd ll)"
  "capacity_ttpa (clean_row num t ll) = capacity_ttpa t"
  by (simp_all add: clean_row_def raw_row.defs row.defs)

text \<open>The width of the split frame is the largest number of parts of a cell.\<close>

lemma expand_width_Max:
  "expand_width col =
     Max (set (0 # map (\<lambda>c. case c of None \<Rightarrow> 1 | Some s \<Rightarrow> length (split_comma_space s)) col))"
  unfolding expand_width_def by (rule Max.set_eq_fold [symmetric])

lemma expand_width_ge:
  assumes "Some s \<in> set col"
  shows "length (split_comma_space s) \<le> expand_width col"
proof -
  let ?f = "\<lambda>c. case c of None \<Rightarrow> 1 | Some s \<Rightarrow> length (split_comma_space s)"
  from assms have "?f (Some s) \<in> ?f ` set col" by (rule imageI)
  then have mem: "length (split_comma_space s) \<in> set (0 # map ?f col)" by simp
  have "length (split_comma_space s) \<le> Max (set (0 # map ?f col))"
    by (rule Max_ge [OF finite_set mem])
  then show ?thesis
    by (simp only: expand_width_Max)
qed

text \<open>
  What a successful load has gone through: the file exists, the split frame has exactly
  two columns, and the result is the rows of the file, each with its derived columns,
  without those that lack a coordinate.
\<close>

lemma load_Inr:
  assumes "load_and_clean_data num fs file_path = Inr df"
  obtains rows where "fs file_path = Some rows"
    and "expand_width (map coordinates rows) = 2"
    and "df = dropna_lat_lon (map (\<lambda>t. clean_row num t (lat_lon_cells (coordinates t))) rows)"
proof -
  from assms obtain rows where rows: "fs file_path = Some rows"
    by (auto simp: load_and_clean_data_def read_csv_def split: option.splits)
  from assms rows have w: "expand_width (map coordinates rows) = 2"
    by (auto simp: load_and_clean_data_def read_csv_def str_split_expand_def assign_lat_lon_def Let_def
        str_accessor_def split: sum.splits if_splits)
  from assms rows w
  have "df = dropna_lat_lon (map (\<lambda>t. clean_row num t (lat_lon_cells (coordinates t))) rows)"
    by (auto simp: load_and_clean_data_def read_csv_def str_split_expand_def assign_lat_lon_def Let_def
        str_accessor_def map2_same lat_lon_cells_def o_def
        split: sum.splits if_splits)
  with rows w show ?thesis by (rule that)
qed

lemma plottable_iff:
  assumes "t \<in> set rows" "expand_width (map coordinates rows) = 2"
  shows "(to_numeric num (fst (lat_lon_cells (coordinates t))) \<noteq> None \<and>
          to_numeric num (snd (lat_lon_cells (coordinates t))) \<noteq> None) \<longleftrightarrow> plottable num t"
proof (cases "coordinates t")
  case None
  then show ?thesis
    by (simp add: plottable_def lat_lon_cells_def expand_row_def to_numeric_def numeral_2_eq_2)
next
  case (Some s)
  with assms have "length (split_comma_space s) \<le> 2"
    using expand_width_ge [of s "map coordinates rows"] by force
  moreover have "split_comma_space s \<noteq> []" by (rule split_comma_space_not_Nil)
  ultimately consider a where "split_comma_space s = [a]" | a b where "split_comma_space s = [a, b]"
    by (cases "split_comma_space s"; cases "tl (split_comma_space s)"; cases "tl (tl (split_comma_space s))") auto
  then show ?thesis
  proof cases
    case 1
    with Some show ?thesis
      by (simp add: plottable_def lat_lon_cells_def expand_row_def to_numeric_def)
  next
    case 2
    with Some show ?thesis
      by (simp add: plottable_def lat_lon_cells_def expand_row_def to_numeric_def isnull_def
          split: option.splits)
  qed
qed

lemma load_rows:
  assumes "fs file_path = Some rows" "load_and_clean_data num fs file_path = Inr df"
  shows "map raw_row.truncate df = filter (plottable num) rows"
proof -
  from assms(2) obtain rows' where r: "fs file_path = Some rows'"
    and w: "expand_width (map coordinates rows') = 2"
    and df: "df = dropna_lat_lon (map (\<lambda>t. clean_row num t (lat_lon_cells (coordinates t))) rows')"
    by (rule load_Inr)
  from r assms(1) have [simp]: "rows' = rows" by simp
  have "map raw_row.truncate df =
        filter (\<lambda>t. to_numeric num (fst (lat_lon_cells (coordinates t))) \<noteq> None \<and>
                     to_numeric num (snd (lat_lon_cells (coordinates t))) \<noteq> None) rows"
    unfolding df dropna_lat_lon_def
    by (simp add: filter_map o_def clean_row_fields truncate_clean_row isnull_iff)
  also have "\<dots> = filter (plottable num) rows"
    using w by (intro filter_cong refl plottable_iff) auto
  finally show ?thesis .
qed

text \<open>The example file: the row with the coordinate \<open>bad\<close> is dropped, the other two stay.\<close>

lemma load_example_file:
  "load_and_clean_data decimal example_fs DATA_FILE = Inr [annaba, unknown_capacity]"
  by (simp add: example_defs)

text \<open>
  C1. Every row of the cleaned table comes from a row of the file, and its derived
  capacity is the raw capacity divided by 1000 when the raw capacity is a number, and
  is missing when it is not.
\<close>

theorem capacity_mtpa_is_ttpa_over_1000:
  assumes "fs file_path = Some rows"
    and "load_and_clean_data num fs file_path = Inr df"
    and "r \<in> set df"
  shows "raw_row.truncate r \<in> set rows \<and>
         (\<forall>x. to_numeric num (capacity_ttpa r) = Some x \<longrightarrow> capacity_mtpa r = Some (x / 1000)) \<and>
         (to_numeric num (capacity_ttpa r) = None \<longrightarrow> capacity_mtpa r = None)"
proof -
  from assms(2) obtain rows' where
    df: "df = dropna_lat_lon (map (\<lambda>t. clean_row num t (lat_lon_cells (coordinates t))) rows')"
    by (rule load_Inr)
  from assms(3) obtain t where r: "r = clean_row num t (lat_lon_cells (coordinates t))"
    unfolding df dropna_lat_lon_def by auto
  have "raw_row.truncate r \<in> set (filter (plottable num) rows)"
    using load_rows [OF assms(1,2)] assms(3) by (metis image_eqI set_map)
  then show ?thesis
    by (auto simp: r clean_row_fields)
qed

text \<open>
  In the example file the raw capacity 1500 gives the derived capacity 1.5, and the raw
  capacity \<open>unknown\<close> gives a missing one.
\<close>

theorem capacity_mtpa_is_ttpa_over_1000_witness:
  "example_fs DATA_FILE = Some example_file \<and>
   load_and_clean_data decimal example_fs DATA_FILE = Inr [annaba, unknown_capacity] \<and>
   to_numeric decimal (capacity_ttpa annaba) = Some 1500 \<and>
   capacity_mtpa annaba = Some (15 / 10) \<and>
   to_numeric decimal (capacity_ttpa unknown_capacity) = None \<and>
   capacity_mtpa unknown_capacity = None"
proof -
  have fs: "example_fs DATA_FILE = Some example_file"
    by (simp add: example_fs_def)
  have a: "annaba \<in> set [annaba, unknown_capacity]" and u: "unknown_capacity \<in> set [annaba, unknown_capacity]"
    by simp_all
  have na: "to_numeric decimal (capacity_ttpa annaba) = Some 1500"
    and nu: "to_numeric decimal (capacity_ttpa unknown_capacity) = None"
    by (simp_all add: example_defs)
  from capacity_mtpa_is_ttpa_over_1000 [OF fs load_example_file a] na
  have "capacity_mtpa annaba = Some (15 / 10)" by simp
  moreover from capacity_mtpa_is_ttpa_over_1000 [OF fs load_example_file u] nu
  have "capacity_mtpa unknown_capacity = None" by simp
  ultimately show ?thesis
    using fs load_example_file na nu by simp
qed

text \<open>
  C2. Every row of the cleaned table has a latitude and a longitude, and the cleaned
  table is the file without the rows that are not plottable, in the order of the file:
  a row in which a coordinate does not parse is absent.
\<close>

theorem retained_rows_have_coordinates:
  assumes "fs file_path = Some rows"
    and "load_and_clean_data num fs file_path = Inr df"
  shows "list_all (\<lambda>r. \<exists>x y. lat r = Some x \<and> longitude r = Some y) df \<and>
         map raw_row.truncate df = filter (plottable num) rows"
proof -
  from assms(2) obtain rows' where
    df: "df = dropna_lat_lon (map (\<lambda>t. clean_row num t (lat_lon_cells (coordinates t))) rows')"
    by (rule load_Inr)
  have "list_all (\<lambda>r. \<exists>x y. lat r = Some x \<and> longitude r = Some y) df"
    unfolding df dropna_lat_lon_def by (auto simp: list_all_iff isnull_iff)
  with load_rows [OF assms] show ?thesis by simp
qed

text \<open>
  In the example file the row with the coordinate string \<open>bad\<close> is not plottable and is
  not in the cleaned table.
\<close>

theorem retained_rows_have_coordinates_witness:
  "example_fs DATA_FILE = Some example_file \<and>
   load_and_clean_data decimal example_fs DATA_FILE = Inr [annaba, unknown_capacity] \<and>
   coordinates plant_bad_coordinates = Some ''bad'' \<and>
   plant_bad_coordinates \<in> set example_file \<and>
   \<not> plottable decimal plant_bad_coordinates \<and>
   map raw_row.truncate [annaba, unknown_capacity] = [plant_annaba, plant_unknown_capacity] \<and>
   filter (plottable decimal) example_file = [plant_annaba, plant_unknown_capacity]"
proof -
  have fs: "example_fs DATA_FILE = Some example_file"
    by (simp add: example_fs_def)
  have t: "map raw_row.truncate [annaba, unknown_capacity] = [plant_annaba, plant_unknown_capacity]"
    by (simp add: example_defs)
  have b: "\<not> plottable decimal plant_bad_coordinates"
    by (simp add: plottable_def plant_bad_coordinates_def)
  have m: "plant_bad_coordinates \<in> set example_file"
    by (simp add: example_file_def)
  have c: "coordinates plant_bad_coordinates = Some ''bad''"
    by (simp add: plant_bad_coordinates_def)
  from retained_rows_have_coordinates [OF fs load_example_file] t
  have "filter (plottable decimal) example_file = [plant_annaba, plant_unknown_capacity]"
    by simp
  with fs load_example_file t b m c show ?thesis
    by simp
qed

text \<open>
  C3. A coordinate cell with three parts makes the split frame three columns wide, and
  the assignment of line 38 raises \<open>ValueError\<close>: the load fails instead of dropping the
  row, and since only \<open>FileNotFoundError\<close> is caught, the exception leaves the script,
  whatever the rounding and the widgets are.
\<close>

theorem three_part_coordinates_raise:
  "split_comma_space ''1.0, 2.0, 3.0'' = [''1.0'', ''2.0'', ''3.0''] \<and>
   load_and_clean_data decimal three_parts_fs DATA_FILE = Inl ValueError \<and>
   app decimal rnd w three_parts_fs True = ([], Raised ValueError)"
  by (simp add: app_def three_parts_fs_def plant_three_parts_def example_defs)

text \<open>
  More generally, the load raises as soon as one coordinate cell of the file has more
  than two parts.
\<close>

lemma load_raises_on_extra_parts:
  assumes "fs file_path = Some rows"
    and "t \<in> set rows"
    and "coordinates t = Some s"
    and "2 < length (split_comma_space s)"
  shows "load_and_clean_data num fs file_path = Inl ValueError"
proof -
  from assms(2,3) have mem: "Some s \<in> set (map coordinates rows)"
    by force
  from expand_width_ge [OF mem] assms(4) have w: "expand_width (map coordinates rows) \<noteq> 2"
    by simp
  from assms(2,3) have "\<not> list_all (\<lambda>c. c = None) (map coordinates rows)"
    by (auto simp: list_all_iff)
  then have "str_accessor (map coordinates rows) = Inr (map coordinates rows)"
    by (simp add: str_accessor_def)
  with assms(1) w show ?thesis
    by (simp add: load_and_clean_data_def read_csv_def str_split_expand_def assign_lat_lon_def Let_def)
qed

section \<open>Properties of the filters\<close>

lemmas view_defs =
  filter_owner_def filter_country_def filter_capacity_def apply_filters_def isnull_def ge_num_def
  le_num_def series_sum_def series_mean_def nunique_def round_of_mean_def compute_kpis_def
  map_data_dropna_def clip_def marker_radius_def region_colors_def series_map_def list_or_gray_def
  marker_color_def style_point_def mean_or_zero_def map_section_def table_section_def
  main_content_def dashboard_def annaba_def unknown_capacity_def
  plant_annaba_def plant_unknown_capacity_def raw_row.defs row.defs point.defs

lemma capacity_mask_iff:
  "isnull c \<or> (ge_num c lo \<and> le_num c hi) \<longleftrightarrow> c = None \<or> (\<exists>x. c = Some x \<and> lo \<le> x \<and> x \<le> hi)"
  by (cases c) (simp_all add: isnull_def ge_num_def le_num_def)

text \<open>
  C4. The capacity filter keeps exactly the rows whose derived capacity is missing or lies
  between the two bounds, both included: a row without capacity is kept whatever the
  bounds are, and a row whose capacity is the lower or the upper bound is kept.
\<close>

theorem capacity_filter_inclusive:
  "filter_capacity (lo, hi) df =
     filter (\<lambda>r. capacity_mtpa r = None \<or> (\<exists>c. capacity_mtpa r = Some c \<and> lo \<le> c \<and> c \<le> hi)) df \<and>
   (r \<in> set df \<and> capacity_mtpa r = None \<longrightarrow> r \<in> set (filter_capacity (lo, hi) df)) \<and>
   (r \<in> set df \<and> lo \<le> hi \<and> (capacity_mtpa r = Some lo \<or> capacity_mtpa r = Some hi) \<longrightarrow>
      r \<in> set (filter_capacity (lo, hi) df))"
  by (auto simp: filter_capacity_def capacity_mask_iff)

text \<open>
  A row of capacity 1.5 is kept by the ranges (1.5, 3) and (1, 1.5); a row without capacity
  is kept by the range (2, 3), which excludes the row of capacity 1.5.
\<close>

theorem capacity_filter_inclusive_witness:
  "unknown_capacity \<in> set [annaba, unknown_capacity] \<and> capacity_mtpa unknown_capacity = None \<and>
   unknown_capacity \<in> set (filter_capacity (2, 3) [annaba, unknown_capacity]) \<and>
   annaba \<in> set [annaba, unknown_capacity] \<and> (3 / 2 :: real) \<le> 3 \<and> capacity_mtpa annaba = Some (3 / 2) \<and>
   annaba \<in> set (filter_capacity (3 / 2, 3) [annaba, unknown_capacity]) \<and>
   annaba \<in> set (filter_capacity (1, 3 / 2) [annaba, unknown_capacity]) \<and>
   filter_capacity (2, 3) [annaba, unknown_capacity] = [unknown_capacity]"
proof -
  have c: "capacity_mtpa annaba = Some (3 / 2)" "capacity_mtpa unknown_capacity = None"
    by (simp_all add: annaba_def unknown_capacity_def raw_row.defs row.defs)
  let ?df = "[annaba, unknown_capacity]"
  have k1: "unknown_capacity \<in> set (filter_capacity (2, 3) ?df)"
    by (rule capacity_filter_inclusive [THEN conjunct2, THEN conjunct1, rule_format])
      (simp add: c)
  have k2: "annaba \<in> set (filter_capacity (3 / 2, 3) ?df)"
    by (rule capacity_filter_inclusive [THEN conjunct2, THEN conjunct2, rule_format])
      (simp add: c)
  have k3: "annaba \<in> set (filter_capacity (1, 3 / 2) ?df)"
    by (rule capacity_filter_inclusive [THEN conjunct2, THEN conjunct2, rule_format])
      (simp add: c)
  have k4: "filter_capacity (2, 3) ?df = [unknown_capacity]"
    by (simp add: view_defs)
  from k1 k2 k3 k4 c show ?thesis
    by simp
qed

text \<open>
  C5. The owner filter keeps the rows whose owner is selected, and every row when nothing
  is selected; the country filter does the same with the country. With no owner selected
  the filtered subset is the one that the country and capacity filters alone give.
\<close>

theorem empty_selection_is_no_restriction:
  "filter_owner sel df = filter (\<lambda>r. sel = [] \<or> owner r \<in> set sel) df \<and>
   filter_country sel df = filter (\<lambda>r. sel = [] \<or> country r \<in> set sel) df \<and>
   filter_owner [] df = df \<and> filter_country [] df = df \<and>
   apply_filters df [] sk cr = filter_capacity cr (filter_country sk df)"
  by (simp add: filter_owner_def filter_country_def apply_filters_def)

theorem empty_selection_is_no_restriction_witness:
  "filter_owner [] [annaba, unknown_capacity] = [annaba, unknown_capacity] \<and>
   filter_owner [Some ''Groupe Sider''] [annaba, unknown_capacity] = [annaba] \<and>
   filter_country [Some ''Germany''] [annaba, unknown_capacity] = [unknown_capacity] \<and>
   apply_filters [annaba, unknown_capacity] [] [Some ''Germany''] (0, 10) = [unknown_capacity]"
proof -
  have o: "owner annaba = Some ''Groupe Sider''" "owner unknown_capacity = Some ''Owner D''"
    "country annaba = Some ''Algeria''" "country unknown_capacity = Some ''Germany''"
    "capacity_mtpa unknown_capacity = None"
    by (simp_all add: annaba_def unknown_capacity_def plant_annaba_def plant_unknown_capacity_def
        raw_row.defs row.defs)
  have c: "filter_capacity (0, 10) [unknown_capacity] = [unknown_capacity]"
    by (simp add: filter_capacity_def isnull_def o)
  from empty_selection_is_no_restriction
         [of "[]" "[annaba, unknown_capacity]" "[Some ''Germany'']" "(0, 10)"]
    empty_selection_is_no_restriction [of "[Some ''Groupe Sider'']" "[annaba, unknown_capacity]"]
    empty_selection_is_no_restriction [of "[Some ''Germany'']" "[annaba, unknown_capacity]"] o c
  show ?thesis by simp
qed

section \<open>Properties of the indicators\<close>

lemma sum_dropna: "sum_list (dropna xs) = (\<Sum>x\<leftarrow>xs. case x of None \<Rightarrow> 0 | Some c \<Rightarrow> c)"
  by (induction xs rule: dropna.induct) auto

lemma length_dropna: "length (dropna xs) = length (filter (\<lambda>x. x \<noteq> None) xs)"
  by (induction xs rule: dropna.induct) auto

lemma set_dropna: "set (dropna xs) = {x. Some x \<in> set xs}"
  by (induction xs rule: dropna.induct) auto

lemma dropna_capacity_Nil:
  "dropna (map capacity_mtpa df) = [] \<longleftrightarrow> filter (\<lambda>r. capacity_mtpa r \<noteq> None) df = []"
proof -
  have "length (dropna (map capacity_mtpa df)) = length (filter (\<lambda>r. capacity_mtpa r \<noteq> None) df)"
    by (simp add: length_dropna filter_map o_def)
  then show ?thesis
    by (metis length_0_conv)
qed

text \<open>
  On a subset in which some row has a capacity the four indicators are produced: the
  number of rows, the rounded sum of the capacities that are present, the rounded
  quotient of that sum by their number, and the number of distinct countries.
\<close>

lemma kpi_values:
  assumes "filter (\<lambda>r. capacity_mtpa r \<noteq> None) df \<noteq> []"
  shows "compute_kpis rnd df =
     Inr \<lparr>total_plants = length df,
          total_capacity = rnd (\<Sum>r\<leftarrow>df. case capacity_mtpa r of None \<Rightarrow> 0 | Some c \<Rightarrow> c),
          avg_capacity =
            rnd ((\<Sum>r\<leftarrow>df. case capacity_mtpa r of None \<Rightarrow> 0 | Some c \<Rightarrow> c) /
                 real (length (filter (\<lambda>r. capacity_mtpa r \<noteq> None) df))),
          unique_countries = card {c. Some c \<in> country ` set df}\<rparr>"
proof -
  let ?caps = "map capacity_mtpa df"
  have s: "sum_list (dropna ?caps) = (\<Sum>r\<leftarrow>df. case capacity_mtpa r of None \<Rightarrow> 0 | Some c \<Rightarrow> c)"
    by (simp add: sum_dropna o_def)
  have l: "length (dropna ?caps) = length (filter (\<lambda>r. capacity_mtpa r \<noteq> None) df)"
    by (simp add: length_dropna filter_map o_def)
  from assms have ne: "dropna ?caps \<noteq> []" "df \<noteq> []"
    by (auto simp: dropna_capacity_Nil)
  have u: "nunique (map country df) = card {c. Some c \<in> country ` set df}"
    by (simp add: nunique_def length_remdups_card_conv set_dropna)
  from ne show ?thesis
    by (simp add: compute_kpis_def Let_def series_sum_def series_mean_def round_of_mean_def s l u)
qed

text \<open>
  The capacities 1, 2, missing and 3 give the total 6, the average 2 and the count 4, for
  a rounding that leaves 6 and 2 as they are.
\<close>

lemma kpi_example:
  assumes "map capacity_mtpa df = [Some 1, Some 2, None, Some 3]"
    and "rnd 6 = 6" and "rnd 2 = 2"
  shows "\<exists>k. compute_kpis rnd df = Inr k \<and>
           total_capacity k = 6 \<and> avg_capacity k = 2 \<and> total_plants k = 4"
proof -
  from assms(1) have "length (map capacity_mtpa df) = 4" by simp
  then have "length df = 4" by simp
  with assms show ?thesis
    by (simp add: compute_kpis_def Let_def series_sum_def series_mean_def round_of_mean_def)
qed

lemma kpi_four_plants:
  assumes "rnd 6 = 6" and "rnd 2 = 2"
  shows "compute_kpis rnd four_plants =
     Inr \<lparr>total_plants = 4, total_capacity = 6, avg_capacity = 2, unique_countries = 2\<rparr>"
  using assms by (simp add: four_plants_def view_defs)

text \<open>On a subset without rows, which the script never reaches, the average is 0.\<close>

lemma kpi_no_rows:
  "compute_kpis rnd [] =
     Inr \<lparr>total_plants = 0, total_capacity = rnd 0, avg_capacity = 0, unique_countries = 0\<rparr>"
  by (simp add: compute_kpis_def series_sum_def nunique_def)

text \<open>
  On a subset that has rows of which none has a capacity, the mean is the plain float
  \<open>nan\<close> and rounding it raises: the guard of line 127 tests the number of rows, not the
  number of capacities.
\<close>

lemma kpi_raises:
  assumes "df \<noteq> []" and "filter (\<lambda>r. capacity_mtpa r \<noteq> None) df = []"
  shows "compute_kpis rnd df = Inl AttributeError"
  using assms
  by (simp add: compute_kpis_def Let_def series_mean_def round_of_mean_def dropna_capacity_Nil)

text \<open>
  C6. The indicators are not produced for every filtered subset: for the subset that
  holds the one plant of unknown capacity, line 127 raises \<open>AttributeError\<close>, and the page
  ends with that exception before any indicator, map or table, whatever the rounding is.
\<close>

theorem mean_without_capacity_raises:
  "capacity_mtpa unknown_capacity = None \<and>
   apply_filters [annaba, unknown_capacity] [Some ''Owner D''] [] (0, 10) = [unknown_capacity] \<and>
   compute_kpis rnd [unknown_capacity] = Inl AttributeError \<and>
   dashboard rnd True [annaba, unknown_capacity] [Some ''Owner D''] [] (0, 10) =
     ([], Raised AttributeError)"
proof -
  have c: "capacity_mtpa unknown_capacity = None"
    by (simp add: unknown_capacity_def raw_row.defs row.defs)
  have f: "apply_filters [annaba, unknown_capacity] [Some ''Owner D''] [] (0, 10) = [unknown_capacity]"
    by (simp add: view_defs)
  have k: "compute_kpis rnd [unknown_capacity] = Inl AttributeError"
    by (simp add: compute_kpis_def series_mean_def round_of_mean_def c)
  from c f k show ?thesis
    by (simp add: dashboard_def main_content_def)
qed

section \<open>Properties of the rendered page\<close>

text \<open>
  C7. When no row passes the filters, the page is the message that no plant matches and
  the run stops there: no indicator, map or table is emitted.
\<close>

theorem empty_subset_stops:
  assumes "apply_filters df selected_companies selected_countries capacity_range = []"
  shows "dashboard rnd has_region df selected_companies selected_countries capacity_range =
           ([Error ''No steel plants match the selected filters. Please adjust your selections.''],
            Stopped)"
  using assms by (simp add: dashboard_def)

text \<open>The rounding is not reached on this branch; the example takes the identity for it.\<close>

theorem empty_subset_stops_witness:
  "apply_filters [annaba, unknown_capacity] [Some ''Nobody''] [] (0, 10) = [] \<and>
   dashboard (\<lambda>x. x) True [annaba, unknown_capacity] [Some ''Nobody''] [] (0, 10) =
     ([Error ''No steel plants match the selected filters. Please adjust your selections.''],
      Stopped)"
proof -
  have e: "apply_filters [annaba, unknown_capacity] [Some ''Nobody''] [] (0, 10) = []"
    by (simp add: view_defs)
  from empty_subset_stops [OF e] e show ?thesis by simp
qed

lemma style_point_fields:
  "radius (style_point r) = marker_radius (capacity_mtpa r)"
  "color (style_point r) = marker_color (region r)"
  "capacity_mtpa (style_point r) = capacity_mtpa r"
  "region (style_point r) = region r"
  "row.truncate (style_point r) = r"
  by (simp_all add: style_point_def row.defs point.defs)

lemma map_section_chart:
  assumes "map_section has_region df_filtered = Inr (Pydeck_chart pts center)"
  shows "has_region \<and> pts = map style_point (map_data_dropna df_filtered)"
  using assms by (auto simp: map_section_def Let_def split: if_splits)

lemma clip_clamp: "clip 5000 80000 x = max 5000 (min 80000 x)"
  by (simp add: clip_def Let_def max_def min_def)

text \<open>
  C8. Every point of the map has a derived capacity \<open>c\<close>, and its radius is \<open>c * 20000\<close>
  brought into the interval from 5000 to 80000. The capacity 0.0001 gives 5000, the
  capacity 10 gives 80000 and the capacity 1 gives 20000.
\<close>

theorem marker_radius_clamped:
  assumes "map_section has_region df_filtered = Inr (Pydeck_chart pts center)"
    and "p \<in> set pts"
  shows "(\<exists>c. capacity_mtpa p = Some c \<and> radius p = Some (max 5000 (min 80000 (c * 20000)))) \<and>
         marker_radius (Some (1 / 10000)) = Some 5000 \<and>
         marker_radius (Some 10) = Some 80000 \<and>
         marker_radius (Some 1) = Some 20000"
proof -
  from map_section_chart [OF assms(1)] assms(2)
  obtain r where r: "r \<in> set (map_data_dropna df_filtered)" "p = style_point r"
    by auto
  from r(1) obtain c where c: "capacity_mtpa r = Some c"
    by (auto simp: map_data_dropna_def isnull_iff)
  have "radius p = Some (max 5000 (min 80000 (c * 20000)))"
    by (simp add: r(2) style_point_fields c marker_radius_def clip_clamp)
  moreover have "capacity_mtpa p = Some c"
    by (simp add: r(2) style_point_fields c)
  moreover have "marker_radius (Some (1 / 10000)) = Some 5000 \<and>
         marker_radius (Some 10) = Some 80000 \<and> marker_radius (Some 1) = Some 20000"
    by (simp add: marker_radius_def clip_def)
  ultimately show ?thesis by blast
qed

lemma map_section_example:
  "map_section True map_example =
     Inr (Pydeck_chart
            [style_point annaba, style_point (annaba\<lparr>region := None\<rparr>),
             style_point (annaba\<lparr>region := Some ''Antarctica''\<rparr>)]
            (36753961 / 1000000, 312221 / 50000))"
  by (simp add: map_section_def map_data_dropna_def isnull_def map_example_def annaba_def
      unknown_capacity_def raw_row.defs row.defs mean_or_zero_def series_mean_def)

theorem marker_radius_clamped_witness:
  "map_section True map_example =
     Inr (Pydeck_chart
            [style_point annaba, style_point (annaba\<lparr>region := None\<rparr>),
             style_point (annaba\<lparr>region := Some ''Antarctica''\<rparr>)]
            (36753961 / 1000000, 312221 / 50000)) \<and>
   capacity_mtpa (style_point annaba) = Some (3 / 2) \<and>
   radius (style_point annaba) = Some 30000"
proof -
  have p: "style_point annaba \<in> set [style_point annaba, style_point (annaba\<lparr>region := None\<rparr>),
             style_point (annaba\<lparr>region := Some ''Antarctica''\<rparr>)]"
    by simp
  have c: "capacity_mtpa (style_point annaba) = Some (3 / 2)"
    by (simp add: style_point_fields annaba_def raw_row.defs row.defs)
  from marker_radius_clamped [OF map_section_example p] c
  have "radius (style_point annaba) = Some 30000"
    by auto
  with map_section_example c show ?thesis by blast
qed

text \<open>
  Without a \<open>Region\<close> column no map is drawn for a subset that has a row to plot: the
  default of \<open>get\<close> is a string, not a column.
\<close>

lemma map_section_without_region:
  "map_data_dropna df_filtered \<noteq> [] \<Longrightarrow> map_section False df_filtered = Inl AttributeError"
  by (simp add: map_section_def)

text \<open>
  When the frame has the column, the color of a point is the one that the palette gives
  for its region when the region is a key of the palette, and gray when the region cell
  is missing or is not a key.
\<close>

lemma marker_color_lookup:
  assumes "map_section has_region df_filtered = Inr (Pydeck_chart pts center)"
    and "p \<in> set pts"
  shows "(\<forall>s c. region p = Some s \<and> map_of region_colors s = Some c \<longrightarrow> color p = c) \<and>
         (region p = None \<or> (\<exists>s. region p = Some s \<and> s \<notin> fst ` set region_colors) \<longrightarrow>
            color p = [128, 128, 128, 160])"
proof -
  from map_section_chart [OF assms(1)] assms(2)
  obtain r where r: "p = style_point r"
    by auto
  show ?thesis
    by (auto simp: r style_point_fields marker_color_def series_map_def list_or_gray_def
        map_of_eq_None_iff [symmetric] simp del: map_of_eq_None_iff)
qed

lemma marker_color_lookup_example:
  "map_section True map_example =
     Inr (Pydeck_chart
            [style_point annaba, style_point (annaba\<lparr>region := None\<rparr>),
             style_point (annaba\<lparr>region := Some ''Antarctica''\<rparr>)]
            (36753961 / 1000000, 312221 / 50000)) \<and>
   region (style_point annaba) = Some ''Africa'' \<and>
   map_of region_colors ''Africa'' = Some [0, 200, 0, 160] \<and>
   color (style_point annaba) = [0, 200, 0, 160] \<and>
   region (style_point (annaba\<lparr>region := None\<rparr>)) = None \<and>
   color (style_point (annaba\<lparr>region := None\<rparr>)) = [128, 128, 128, 160] \<and>
   region (style_point (annaba\<lparr>region := Some ''Antarctica''\<rparr>)) = Some ''Antarctica'' \<and>
   ''Antarctica'' \<notin> fst ` set region_colors \<and>
   color (style_point (annaba\<lparr>region := Some ''Antarctica''\<rparr>)) = [128, 128, 128, 160]"
proof -
  let ?pts = "[style_point annaba, style_point (annaba\<lparr>region := None\<rparr>),
             style_point (annaba\<lparr>region := Some ''Antarctica''\<rparr>)]"
  have p: "style_point annaba \<in> set ?pts" "style_point (annaba\<lparr>region := None\<rparr>) \<in> set ?pts"
    "style_point (annaba\<lparr>region := Some ''Antarctica''\<rparr>) \<in> set ?pts"
    by simp_all
  have r1: "region (style_point annaba) = Some ''Africa''"
    by (simp add: style_point_fields annaba_def plant_annaba_def raw_row.defs row.defs)
  have r2: "region (style_point (annaba\<lparr>region := None\<rparr>)) = None"
    by (simp add: style_point_fields)
  have r3: "region (style_point (annaba\<lparr>region := Some ''Antarctica''\<rparr>)) = Some ''Antarctica''"
    by (simp add: style_point_fields)
  have m1: "map_of region_colors ''Africa'' = Some [0, 200, 0, 160]"
    by (simp add: region_colors_def)
  have m3: "''Antarctica'' \<notin> fst ` set region_colors"
    by (simp add: region_colors_def)
  from marker_color_lookup [OF map_section_example p(1)] r1 m1
  have c1: "color (style_point annaba) = [0, 200, 0, 160]"
    by blast
  from marker_color_lookup [OF map_section_example p(2)] r2
  have c2: "color (style_point (annaba\<lparr>region := None\<rparr>)) = [128, 128, 128, 160]"
    by blast
  from marker_color_lookup [OF map_section_example p(3)] r3 m3
  have c3: "color (style_point (annaba\<lparr>region := Some ''Antarctica''\<rparr>)) = [128, 128, 128, 160]"
    by blast
  from map_section_example r1 m1 c1 r2 c2 r3 m3 c3 show ?thesis
    by blast
qed

text \<open>
  C9. The gray fallback does not cover a frame without a \<open>Region\<close> column, the case for
  which line 169 passes the default \<open>"Unknown"\<close>: with a plant to draw, the lookup raises
  \<open>AttributeError\<close> after the indicators and no point gets a color.
\<close>

theorem missing_region_column_raises:
  "map_data_dropna [annaba\<lparr>region := None\<rparr>] = [annaba\<lparr>region := None\<rparr>] \<and>
   map_section False [annaba\<lparr>region := None\<rparr>] = Inl AttributeError \<and>
   fst (dashboard rnd False [annaba\<lparr>region := None\<rparr>] [] [] (0, 10)) =
     [Metrics \<lparr>total_plants = 1, total_capacity = rnd (3 / 2), avg_capacity = rnd (3 / 2),
               unique_countries = 1\<rparr>] \<and>
   snd (dashboard rnd False [annaba\<lparr>region := None\<rparr>] [] [] (0, 10)) = Raised AttributeError"
  by (simp add: view_defs)

text \<open>
  C10. The palette key for Central and South America ends with a space, so a row whose
  region is that name without the space gets gray, and only the name with the space
  gets the purple of the palette.
\<close>

theorem trailing_space_key:
  "map_of region_colors ''Central & South America '' = Some [160, 32, 240, 160] \<and>
   map_of region_colors ''Central & South America'' = None \<and>
   color (style_point (r\<lparr>region := Some ''Central & South America''\<rparr>)) = [128, 128, 128, 160] \<and>
   color (style_point (r\<lparr>region := Some ''Central & South America ''\<rparr>)) = [160, 32, 240, 160]"
  by (simp add: style_point_fields marker_color_def series_map_def list_or_gray_def region_colors_def)

end
